theory Spec2Isabelle
  imports Main "HOL-Library.Log_Nat"
begin

section \<open>PyCatan: board renderer and roll-yield bookkeeping\<close>

text \<open>
  A shallow embedding of \<^verbatim>\<open>pycatan/board/_board_renderer.py\<close>,
  \<^verbatim>\<open>pycatan/roll_yield.py\<close> and \<^verbatim>\<open>pycatan/building.py\<close>.
  Python exceptions are values of \<open>error\<close>; a method that mutates its renderer is a
  function from the object store to an error or a result with the new store.
\<close>

subsection \<open>Enumerations and plain data\<close>

datatype error = IndexError | KeyError | OverflowError | ValueError

text \<open>A player is an opaque identity, used only as a dictionary key.\<close>

datatype Player = Player nat

datatype BuildingType = ROAD | SETTLEMENT | CITY

datatype HexType = FIELDS | FOREST | PASTURE | HILLS | MOUNTAINS | DESERT

datatype Resource = GRAIN | LUMBER | WOOL | BRICK | ORE

record Coords =
  q :: int
  r :: int

text \<open>\<^verbatim>\<open>Coords.__add__\<close>: componentwise.\<close>

definition coords_add :: "Coords \<Rightarrow> Coords \<Rightarrow> Coords" where
  "coords_add a b = \<lparr>q = q a + q b, r = r a + r b\<rparr>"

text \<open>\<^verbatim>\<open>building.py\<close>: \<^verbatim>\<open>Building.__init__\<close> stores its two arguments.\<close>

record Building =
  owner :: Player
  building_type :: BuildingType

definition Building_init :: "Player \<Rightarrow> BuildingType \<Rightarrow> Building" where
  "Building_init own bt = \<lparr>owner = own, building_type = bt\<rparr>"

record CornerBuilding = Building +
  coords :: Coords

definition CornerBuilding_init :: "Player \<Rightarrow> BuildingType \<Rightarrow> Coords \<Rightarrow> CornerBuilding" where
  "CornerBuilding_init own bt cs = Building.extend (Building_init own bt) (CornerBuilding.fields cs)"

record EdgeBuilding = Building +
  edge_coords :: "Coords set"

definition EdgeBuilding_init :: "Player \<Rightarrow> BuildingType \<Rightarrow> Coords set \<Rightarrow> EdgeBuilding" where
  "EdgeBuilding_init own bt ec = Building.extend (Building_init own bt) (EdgeBuilding.fields ec)"

record Hex =
  hex_type :: HexType
  token_number :: "int option"

subsection \<open>\<^verbatim>\<open>roll_yield.py\<close>\<close>

text \<open>
  \<^verbatim>\<open>RollYieldSource.__init__(self, resource, amount, building, hex)\<close> assigns
  \<^verbatim>\<open>self.building\<close> and \<^verbatim>\<open>self.hex\<close> and nothing else, so an instance has
  exactly these two attributes.
\<close>

record RollYieldSource =
  source_building :: CornerBuilding
  source_hex :: Hex

definition RollYieldSource_init ::
  "Resource \<Rightarrow> int \<Rightarrow> CornerBuilding \<Rightarrow> Hex \<Rightarrow> RollYieldSource" where
  "RollYieldSource_init resource amount building hex =
     \<lparr>source_building = building, source_hex = hex\<rparr>"

text \<open>
  What a Python set of this module can hold: an instance of \<^verbatim>\<open>RollYieldSource\<close>, or
  the class object \<^verbatim>\<open>RollYieldSource\<close> itself (classes are hashable objects).
\<close>

datatype yield_entry = RollYieldSource_class | RollYieldSource_instance RollYieldSource

record RollYield =
  total_yield :: "Resource \<rightharpoonup> int"
  all_yields :: "yield_entry set"

text \<open>\<^verbatim>\<open>RollYield.__init__\<close>: \<^verbatim>\<open>{r: 0 for r in Resource}\<close> and \<^verbatim>\<open>set()\<close>.\<close>

definition RollYield_init :: RollYield where
  "RollYield_init = \<lparr>total_yield = (\<lambda>r. Some 0), all_yields = {}\<rparr>"

text \<open>
  \<^verbatim>\<open>add_yield\<close>: \<^verbatim>\<open>self.total_yield[resource] += amount\<close> reads the entry
  (\<^verbatim>\<open>KeyError\<close> when it is missing) and stores the sum; then
  \<^verbatim>\<open>self.all_yields.add(RollYieldSource)\<close> adds the class, not \<^verbatim>\<open>source\<close>.
\<close>

definition add_yield :: "RollYield \<Rightarrow> Resource \<Rightarrow> int \<Rightarrow> RollYieldSource \<Rightarrow> error + RollYield" where
  "add_yield self resource amount source =
     (case total_yield self resource of
        None \<Rightarrow> Inl KeyError
      | Some old \<Rightarrow>
          Inr (self\<lparr>total_yield := (total_yield self)(resource \<mapsto> old + amount),
                    all_yields := insert RollYieldSource_class (all_yields self)\<rparr>))"

subsection \<open>The board, as the renderer reads it\<close>

text \<open>
  The board classes are collaborators outside this module; each record holds the
  attributes the renderer reads. A collection that the renderer iterates over
  (\<^verbatim>\<open>path_coords\<close>, the dictionaries \<^verbatim>\<open>hexes\<close> and \<^verbatim>\<open>harbors\<close>) is a list in
  its iteration order; \<^verbatim>\<open>frozenset(path_coords)\<close> is the \<open>set\<close> of that list. A
  dictionary that is only looked up is a map.
\<close>

record Intersection =
  intersection_building :: "CornerBuilding option"

record Path =
  path_coords :: "Coords list"
  path_building :: "EdgeBuilding option"

record Harbor =
  harbor_path_coords :: "Coords list"
  harbor_resource :: "Resource option"

record Board =
  hexes :: "(Coords \<times> Hex) list"
  intersections :: "Coords \<rightharpoonup> Intersection"
  paths :: "Coords set \<rightharpoonup> Path"
  harbors :: "(Coords set \<times> Harbor) list"
  robber :: Coords

subsection \<open>The object store and actions on it\<close>

text \<open>
  Lists and dictionaries that are mutated in place live in a store and are held by
  reference, so that two names for one object see each other's updates. An action
  either raises or returns a value and the store it leaves behind.
\<close>

type_synonym colour = string
type_synonym addr = nat

record store =
  list_objs :: "addr \<Rightarrow> colour list"
  dict_objs :: "addr \<Rightarrow> (Player \<rightharpoonup> colour)"

type_synonym 'a action = "store \<Rightarrow> error + 'a \<times> store"

definition ret :: "'a \<Rightarrow> 'a action" where
  "ret v s = Inr (v, s)"

definition seq :: "'a action \<Rightarrow> ('a \<Rightarrow> 'b action) \<Rightarrow> 'b action" where
  "seq m f s = (case m s of Inl e \<Rightarrow> Inl e | Inr (v, s') \<Rightarrow> f v s')"

text \<open>A computation that reads no mutable object, run as an action.\<close>

definition lift :: "error + 'a \<Rightarrow> 'a action" where
  "lift x s = (case x of Inl e \<Rightarrow> Inl e | Inr v \<Rightarrow> Inr (v, s))"

text \<open>\<^verbatim>\<open>d[k]\<close> on a dictionary value.\<close>

definition getitem :: "('k \<rightharpoonup> 'v) \<Rightarrow> 'k \<Rightarrow> error + 'v" where
  "getitem d k = (case d k of None \<Rightarrow> Inl KeyError | Some v \<Rightarrow> Inr v)"

text \<open>\<^verbatim>\<open>xs.pop(0)\<close>, \<^verbatim>\<open>d[k] = v\<close> and \<^verbatim>\<open>d[k]\<close> on objects of the store.\<close>

definition list_pop0 :: "addr \<Rightarrow> colour action" where
  "list_pop0 a s =
     (case list_objs s a of
        [] \<Rightarrow> Inl IndexError
      | c # rest \<Rightarrow> Inr (c, s\<lparr>list_objs := (list_objs s)(a := rest)\<rparr>))"

definition dict_setitem :: "addr \<Rightarrow> Player \<Rightarrow> colour \<Rightarrow> unit action" where
  "dict_setitem a k v s = Inr ((), s\<lparr>dict_objs := (dict_objs s)(a := (dict_objs s a)(k \<mapsto> v))\<rparr>)"

definition dict_getitem :: "addr \<Rightarrow> Player \<Rightarrow> colour action" where
  "dict_getitem a k s = lift (getitem (dict_objs s a) k) s"

subsection \<open>The styling library\<close>

text \<open>
  \<^verbatim>\<open>fg\<close>, \<^verbatim>\<open>bg\<close> and \<^verbatim>\<open>stylize\<close> come from the package \<^verbatim>\<open>colored\<close>: the first two
  turn a colour into an escape code, a string, and \<^verbatim>\<open>fg(a) + bg(b)\<close> concatenates two
  codes; \<^verbatim>\<open>stylize(text, styles)\<close> builds the styled string. They are parameters of
  the renderer.
\<close>

record colored =
  fg :: "colour \<Rightarrow> string"
  bg :: "colour \<Rightarrow> string"
  stylize :: "string \<Rightarrow> string \<Rightarrow> string"

text \<open>\<^verbatim>\<open>stylize\<close> formats a number it is given as text in decimal, as \<^verbatim>\<open>str\<close> does.\<close>

definition digit_char :: "nat \<Rightarrow> char" where
  "digit_char d = ''0123456789'' ! d"

function str_nat :: "nat \<Rightarrow> string" where
  "str_nat n = (if n < 10 then [digit_char n] else str_nat (n div 10) @ [digit_char (n mod 10)])"
  by pat_completeness auto
termination
  by (relation "measure (\<lambda>n. n)") auto

definition str_int :: "int \<Rightarrow> string" where
  "str_int n = (if n < 0 then CHR ''-'' # str_nat (nat (- n)) else str_nat (nat n))"

subsection \<open>\<^verbatim>\<open>BoardRenderer\<close>: construction and player colours\<close>

definition DEFAULT_PLAYER_COLORS :: "colour list" where
  "DEFAULT_PLAYER_COLORS = [''#00c40d'', ''#ff00d9'', ''#0000FF'', ''#00FFFF'']"

definition DEFAULT_HEX_COLORS :: "HexType \<rightharpoonup> colour" where
  "DEFAULT_HEX_COLORS =
     [FIELDS \<mapsto> ''#ffea29'', FOREST \<mapsto> ''#005e09'', PASTURE \<mapsto> ''#52ff62'',
      HILLS \<mapsto> ''#cc1f0c'', MOUNTAINS \<mapsto> ''#7a7a7a'', DESERT \<mapsto> ''#ffe5a3'']"

definition DEFAULT_RESOURCE_COLORS :: "Resource \<rightharpoonup> colour" where
  "DEFAULT_RESOURCE_COLORS =
     [GRAIN \<mapsto> ''#ffea29'', LUMBER \<mapsto> ''#005e09'', WOOL \<mapsto> ''#52ff62'',
      BRICK \<mapsto> ''#cc1f0c'', ORE \<mapsto> ''#7a7a7a'']"

definition WATER_COLOR :: colour where
  "WATER_COLOR = ''#2387de''"

text \<open>
  Two mutable objects exist once the class body has run: the list bound to
  \<^verbatim>\<open>BoardRenderer.DEFAULT_PLAYER_COLORS\<close>, and the dictionary \<^verbatim>\<open>{}\<close> that is the
  default value of the parameter \<^verbatim>\<open>player_color_map\<close> (Python evaluates a default
  once, when \<^verbatim>\<open>def\<close> runs). \<open>class_store\<close> is the store at that moment.
\<close>

definition DEFAULT_PLAYER_COLORS_ref :: addr where
  "DEFAULT_PLAYER_COLORS_ref = 0"

definition default_player_color_map_ref :: addr where
  "default_player_color_map_ref = 0"

definition class_store :: store where
  "class_store =
     \<lparr>list_objs = (\<lambda>a. [])(DEFAULT_PLAYER_COLORS_ref := DEFAULT_PLAYER_COLORS),
      dict_objs = (\<lambda>a. Map.empty)\<rparr>"

text \<open>
  An instance holds references to its palette and its player colour map. The two
  other maps are never updated and are held by value.
\<close>

record BoardRenderer =
  unused_player_colors :: addr
  player_color_map :: addr
  hex_color_map :: "HexType \<rightharpoonup> colour"
  resource_color_map :: "Resource \<rightharpoonup> colour"

text \<open>
  \<^verbatim>\<open>__init__\<close>: an argument left out is \<open>None\<close> here and takes its default. The
  palette attribute is bound to the class's list itself, and a defaulted
  \<^verbatim>\<open>player_color_map\<close> to the one default dictionary; nothing is copied or allocated.
\<close>

definition BoardRenderer_init ::
  "addr option \<Rightarrow> (HexType \<rightharpoonup> colour) option \<Rightarrow> (Resource \<rightharpoonup> colour) option \<Rightarrow> BoardRenderer" where
  "BoardRenderer_init pcm hcm rcm =
     \<lparr>unused_player_colors = DEFAULT_PLAYER_COLORS_ref,
      player_color_map = (case pcm of None \<Rightarrow> default_player_color_map_ref | Some a \<Rightarrow> a),
      hex_color_map = (case hcm of None \<Rightarrow> DEFAULT_HEX_COLORS | Some m \<Rightarrow> m),
      resource_color_map = (case rcm of None \<Rightarrow> DEFAULT_RESOURCE_COLORS | Some m \<Rightarrow> m)\<rparr>"

text \<open>
  \<^verbatim>\<open>_get_player_color\<close>. In the assignment the right-hand side, \<^verbatim>\<open>pop(0)\<close>, runs
  first, so an empty palette raises before the map is touched.
\<close>

definition get_player_color :: "BoardRenderer \<Rightarrow> Player \<Rightarrow> colour action" where
  "get_player_color self player =
     seq (\<lambda>s. if player \<notin> dom (dict_objs s (player_color_map self))
              then seq (list_pop0 (unused_player_colors self))
                       (\<lambda>c. dict_setitem (player_color_map self) player c) s
              else ret () s)
         (\<lambda>_. dict_getitem (player_color_map self) player)"

text \<open>Looking up a sequence of players, one after the other, on one instance.\<close>

fun get_player_colors :: "BoardRenderer \<Rightarrow> Player list \<Rightarrow> colour list action" where
  "get_player_colors self [] = ret []"
| "get_player_colors self (p # ps) =
     seq (get_player_color self p) (\<lambda>c. seq (get_player_colors self ps) (\<lambda>cs. ret (c # cs)))"

subsection \<open>Glyphs\<close>

text \<open>\<^verbatim>\<open>_get_path\<close>: the background is looked up first, then the foreground is chosen.\<close>

definition get_path :: "colored \<Rightarrow> BoardRenderer \<Rightarrow> string list \<Rightarrow> Path \<Rightarrow> Board \<Rightarrow> string list action" where
  "get_path L self chars path board =
     seq (lift (getitem (hex_color_map self) DESERT)) (\<lambda>back.
     seq (case path_building path of
            Some b \<Rightarrow> get_player_color self (owner b)
          | None \<Rightarrow> ret (if set (path_coords path) \<in> fst ` set (harbors board)
                         then ''#000000'' else ''#9c7500'')) (\<lambda>fore.
     ret (map (\<lambda>x. stylize L x (fg L fore @ bg L back)) chars)))"

text \<open>\<^verbatim>\<open>_get_intersection\<close>.\<close>

definition get_intersection :: "colored \<Rightarrow> BoardRenderer \<Rightarrow> string \<Rightarrow> Intersection \<Rightarrow> string list action" where
  "get_intersection L self char intersection =
     seq (lift (getitem (hex_color_map self) DESERT)) (\<lambda>back.
     seq (case intersection_building intersection of
            Some b \<Rightarrow> seq (get_player_color self (owner b)) (\<lambda>fore.
                        ret (fore, if building_type b = SETTLEMENT then ''s'' else ''c''))
          | None \<Rightarrow> ret (''#9c7500'', char)) (\<lambda>(fore, char').
     ret [stylize L char' (fg L fore @ bg L back)]))"

text \<open>
  \<^verbatim>\<open>_get_hex_center\<close>. The second cell of a hex with a token is the blank cell for
  a token below 10 and the empty string otherwise.
\<close>

definition get_hex_center :: "colored \<Rightarrow> BoardRenderer \<Rightarrow> Hex \<Rightarrow> error + string list" where
  "get_hex_center L self h =
     (case getitem (hex_color_map self) (hex_type h) of
        Inl e \<Rightarrow> Inl e
      | Inr col \<Rightarrow>
          (let space = stylize L '' '' (bg L col) in
           case token_number h of
             None \<Rightarrow> Inr (replicate 5 space)
           | Some n \<Rightarrow>
               (let token_color = (if n = 6 \<or> n = 8 then ''#FF0000'' else ''#000000'');
                    token_chars = [if n < 10 then space else ''''] @
                                  [stylize L (str_int n) (fg L token_color @ bg L ''#FFFFFF'')]
                in Inr ([space] @ token_chars @ [space, space]))))"

subsection \<open>Python floats\<close>

text \<open>
  A Python float is an IEEE 754 binary64 number. A finite float is the rational it
  stands for (the sign of zero plays no part below); the other values are the two
  infinities and NaN. Every operation computes the exact result and rounds it to the
  nearest float, ties to the even significand.

  \<open>ilog2 x\<close>, for positive \<open>x\<close>, is the exponent of the binade of \<open>x\<close>:
  \<open>2 ^ ilog2 x \<le> x < 2 ^ (ilog2 x + 1)\<close>. A float has 53 significant bits and is a
  multiple of \<open>2 ^ (- 1074)\<close>, so \<open>x\<close> is rounded to a multiple of \<open>2 ^ e\<close> with
  \<open>e = max (ilog2 \<bar>x\<bar> - 52) (- 1074)\<close>. The largest binade is that of exponent 1023:
  a rounded value in a higher one is an overflow.
\<close>

datatype pyfloat = Finite rat | PosInf | NegInf | NaN

definition pow2 :: "int \<Rightarrow> rat" where
  "pow2 e = (if 0 \<le> e then 2 ^ nat e else 1 / 2 ^ nat (- e))"

definition ilog2 :: "rat \<Rightarrow> int" where
  "ilog2 x = (if 1 \<le> x then bitlen \<lfloor>x\<rfloor> - 1 else - bitlen (\<lceil>1 / x\<rceil> - 1))"

definition round_half_even :: "rat \<Rightarrow> int" where
  "round_half_even x =
     (let f = \<lfloor>x\<rfloor>; d = x - of_int f
      in if d < 1 / 2 then f else if 1 / 2 < d then f + 1 else if even f then f else f + 1)"

definition round_binary64 :: "rat \<Rightarrow> rat" where
  "round_binary64 x =
     (if x = 0 then 0
      else let e = max (ilog2 \<bar>x\<bar> - 52) (- 1074)
           in of_int (round_half_even (x / pow2 e)) * pow2 e)"

definition to_pyfloat :: "rat \<Rightarrow> pyfloat" where
  "to_pyfloat x =
     (let y = round_binary64 x
      in if y = 0 \<or> ilog2 \<bar>y\<bar> < 1024 then Finite y else if 0 < y then PosInf else NegInf)"

text \<open>A float literal of the source, given by its decimal value.\<close>

definition float_literal :: "rat \<Rightarrow> rat" where
  "float_literal x = round_binary64 x"

text \<open>
  An \<^verbatim>\<open>int\<close> operand of a float operation is converted first; the conversion raises
  \<^verbatim>\<open>OverflowError\<close> when the integer is too large for a float.
\<close>

definition float_of_int :: "int \<Rightarrow> error + rat" where
  "float_of_int n =
     (case to_pyfloat (of_int n) of Finite x \<Rightarrow> Inr x | _ \<Rightarrow> Inl OverflowError)"

text \<open>The product of two finite floats; it overflows to an infinity without raising.\<close>

definition float_mul :: "rat \<Rightarrow> rat \<Rightarrow> pyfloat" where
  "float_mul x y = to_pyfloat (x * y)"

fun float_add :: "pyfloat \<Rightarrow> pyfloat \<Rightarrow> pyfloat" where
  "float_add (Finite x) (Finite y) = to_pyfloat (x + y)"
| "float_add NaN _ = NaN"
| "float_add _ NaN = NaN"
| "float_add PosInf NegInf = NaN"
| "float_add NegInf PosInf = NaN"
| "float_add PosInf _ = PosInf"
| "float_add _ PosInf = PosInf"
| "float_add NegInf _ = NegInf"
| "float_add _ NegInf = NegInf"

text \<open>
  \<^verbatim>\<open>int(x)\<close> of a float drops the fraction, rounding towards zero; it raises on an
  infinity (\<^verbatim>\<open>OverflowError\<close>) and on NaN (\<^verbatim>\<open>ValueError\<close>).
\<close>

definition truncate :: "rat \<Rightarrow> int" where
  "truncate x = (if 0 \<le> x then \<lfloor>x\<rfloor> else \<lceil>x\<rceil>)"

fun int_of_float :: "pyfloat \<Rightarrow> error + int" where
  "int_of_float (Finite x) = Inr (truncate x)"
| "int_of_float NaN = Inl ValueError"
| "int_of_float _ = Inl OverflowError"

subsection \<open>Projection\<close>

text \<open>
  \<^verbatim>\<open>_get_hex_center_coords\<close>:
  \<^verbatim>\<open>((int)(3 * coords.r), -(int)(1.34 * coords.q + 0.67 * coords.r))\<close>. The first
  component is integer arithmetic, and \<^verbatim>\<open>int\<close> of an integer is that integer.
\<close>

definition get_hex_center_coords :: "Coords \<Rightarrow> error + int \<times> int" where
  "get_hex_center_coords c =
     (case float_of_int (q c) of Inl e \<Rightarrow> Inl e | Inr fq \<Rightarrow>
      case float_of_int (r c) of Inl e \<Rightarrow> Inl e | Inr fr \<Rightarrow>
      case int_of_float (float_add (float_mul (float_literal (134 / 100)) fq)
                                   (float_mul (float_literal (67 / 100)) fr)) of
        Inl e \<Rightarrow> Inl e
      | Inr n \<Rightarrow> Inr (3 * r c, - n))"

text \<open>
  The projection as the specification words it, with rounding to the nearest integer,
  and the projection with the fraction dropped; both in exact arithmetic.
\<close>

definition hexCenterOffset_round :: "Coords \<Rightarrow> int \<times> int" where
  "hexCenterOffset_round c = (3 * r c, - round (134 / 100 * of_int (q c) + 67 / 100 * of_int (r c) :: rat))"

definition hexCenterOffset_truncate :: "Coords \<Rightarrow> int \<times> int" where
  "hexCenterOffset_truncate c =
     (3 * r c, - truncate (134 / 100 * of_int (q c) + 67 / 100 * of_int (r c)))"

subsection \<open>A hex, a harbor\<close>

text \<open>Looking up a list of keys, one after the other.\<close>

fun getitems :: "('k \<rightharpoonup> 'v) \<Rightarrow> 'k list \<Rightarrow> error + 'v list" where
  "getitems d [] = Inr []"
| "getitems d (k # ks) =
     (case getitem d k of
        Inl e \<Rightarrow> Inl e
      | Inr v \<Rightarrow> (case getitems d ks of Inl e \<Rightarrow> Inl e | Inr vs \<Rightarrow> Inr (v # vs)))"

text \<open>\<^verbatim>\<open>a + b + c\<close> on lists that calls produce: the calls run from left to right.\<close>

fun concat_actions :: "'a list action list \<Rightarrow> 'a list action" where
  "concat_actions [] = ret []"
| "concat_actions (m # ms) = seq m (\<lambda>xs. seq (concat_actions ms) (\<lambda>ys. ret (xs @ ys)))"

definition corner_offsets :: "Coords list" where
  "corner_offsets =
     [\<lparr>q = 1, r = - 1\<rparr>, \<lparr>q = 1, r = 0\<rparr>, \<lparr>q = 0, r = 1\<rparr>,
      \<lparr>q = - 1, r = 1\<rparr>, \<lparr>q = - 1, r = 0\<rparr>, \<lparr>q = 0, r = - 1\<rparr>]"

text \<open>
  \<^verbatim>\<open>_get_hex\<close>: the six corners and the six edges are looked up first; then the three
  rows are built. The hex itself is looked up in the middle of the second row.
\<close>

definition get_hex :: "colored \<Rightarrow> BoardRenderer \<Rightarrow> Board \<Rightarrow> Coords \<Rightarrow> string list list action" where
  "get_hex L self board c =
     (let ic = map (\<lambda>d. coords_add d c) corner_offsets in
      seq (lift (getitems (intersections board) ic)) (\<lambda>is.
      seq (lift (getitems (paths board)
                   (map (\<lambda>i. {ic ! i, ic ! ((i + 1) mod length ic)}) [0..<length ic]))) (\<lambda>ps.
      seq (concat_actions
             [get_intersection L self ''.'' (is ! 0),
              get_path L self [''-'', ''-''] (ps ! 0) board,
              get_intersection L self [CHR 0x27] (is ! 1),
              get_path L self [''-'', ''-''] (ps ! 1) board,
              get_intersection L self ''.'' (is ! 2)]) (\<lambda>row0.
      seq (concat_actions
             [get_path L self [''|''] (ps ! 5) board,
              lift (case getitem (map_of (hexes board)) c of
                      Inl e \<Rightarrow> Inl e
                    | Inr h \<Rightarrow> get_hex_center L self h),
              get_path L self [''|''] (ps ! 2) board]) (\<lambda>row1.
      seq (concat_actions
             [get_intersection L self [CHR 0x27] (is ! 5),
              get_path L self [''-'', ''-''] (ps ! 4) board,
              get_intersection L self ''.'' (is ! 4),
              get_path L self [''-'', ''-''] (ps ! 3) board,
              get_intersection L self [CHR 0x27] (is ! 3)]) (\<lambda>row2.
      ret [row0, row1, row2]))))))"

definition stylize_arr :: "colored \<Rightarrow> string list \<Rightarrow> string \<Rightarrow> string list" where
  "stylize_arr L arr styles = map (\<lambda>s. stylize L s styles) arr"

definition get_harbor :: "colored \<Rightarrow> BoardRenderer \<Rightarrow> Harbor \<Rightarrow> error + string list list" where
  "get_harbor L self harbor =
     (case (case harbor_resource harbor of
              None \<Rightarrow> Inr ''#FFFFFF''
            | Some res \<Rightarrow> getitem (resource_color_map self) res) of
        Inl e \<Rightarrow> Inl e
      | Inr fore \<Rightarrow>
          Inr [stylize_arr L
                 [if harbor_resource harbor = None then ''3'' else ''2'', '':'', ''1'']
                 (fg L fore @ bg L WATER_COLOR)])"

text \<open>
  \<^verbatim>\<open>_get_harbor_coords\<close>. \<^verbatim>\<open>Hex.CONNECTED_CORNER_OFFSETS\<close> belongs to the board
  classes and is the parameter \<open>offs\<close>. Every subscript that can fail here raises
  \<^verbatim>\<open>IndexError\<close>: \<^verbatim>\<open>connected_coords[0]\<close> and \<^verbatim>\<open>connected_coords[1]\<close> on a harbor
  with fewer than two coordinates (with one coordinate and no offsets the comprehension
  runs over nothing, and \<^verbatim>\<open>overlap[0]\<close> raises instead), and \<^verbatim>\<open>overlap[0]\<close> on an
  empty overlap.
\<close>

definition get_harbor_coords :: "Coords list \<Rightarrow> Harbor \<Rightarrow> Board \<Rightarrow> error + int \<times> int" where
  "get_harbor_coords offs harbor board =
     (let connected_coords =
            map (\<lambda>coord. map (\<lambda>c. coords_add c coord) offs) (harbor_path_coords harbor)
      in case connected_coords of
           first # second # _ \<Rightarrow>
             (let overlap = filter (\<lambda>c. c \<in> set second \<and> c \<notin> fst ` set (hexes board)) first
              in case overlap of
                   [] \<Rightarrow> Inl IndexError
                 | c # _ \<Rightarrow>
                     (case get_hex_center_coords c of
                        Inl e \<Rightarrow> Inl e
                      | Inr (x, y) \<Rightarrow> Inr (x + 2, y + 1)))
         | _ \<Rightarrow> Inl IndexError)"

subsection \<open>The canvas\<close>

text \<open>
  A subscript on a list of length \<open>n\<close>: an index from \<open>- n\<close> up to \<open>- 1\<close> counts from
  the end, and one outside \<open>- n \<dots> n - 1\<close> raises \<^verbatim>\<open>IndexError\<close>.
\<close>

definition py_index :: "nat \<Rightarrow> int \<Rightarrow> error + nat" where
  "py_index n i =
     (if 0 \<le> i \<and> i < int n then Inr (nat i)
      else if - int n \<le> i \<and> i < 0 then Inr (nat (int n + i))
      else Inl IndexError)"

text \<open>
  \<^verbatim>\<open>_copy_into_array\<close>: the inner loop writes one line of the block into one row of
  the buffer, the outer loop goes down the lines. A block line with no cell touches no
  row.
\<close>

fun copy_line :: "string list \<Rightarrow> string list \<Rightarrow> int \<Rightarrow> error + string list" where
  "copy_line row [] x = Inr row"
| "copy_line row (cell # cells) x =
     (case py_index (length row) x of
        Inl e \<Rightarrow> Inl e
      | Inr k \<Rightarrow> copy_line (row[k := cell]) cells (x + 1))"

fun copy_into_array ::
  "string list list \<Rightarrow> string list list \<Rightarrow> int \<Rightarrow> int \<Rightarrow> error + string list list" where
  "copy_into_array buf [] x y = Inr buf"
| "copy_into_array buf (line # rest) x y =
     (if line = [] then copy_into_array buf rest x (y + 1)
      else case py_index (length buf) y of
             Inl e \<Rightarrow> Inl e
           | Inr k \<Rightarrow>
               (case copy_line (buf ! k) line x of
                  Inl e \<Rightarrow> Inl e
                | Inr row \<Rightarrow> copy_into_array (buf[k := row]) rest x (y + 1)))"

text \<open>\<^verbatim>\<open>sep.join(xs)\<close>.\<close>

fun join :: "string \<Rightarrow> string list \<Rightarrow> string" where
  "join sep [] = []"
| "join sep [x] = x"
| "join sep (x # y # ys) = x @ sep @ join sep (y # ys)"

text \<open>
  \<^verbatim>\<open>size = 20, 55\<close> and \<^verbatim>\<open>center = int(size[1] / 2) - 3, int(size[0] / 2) - 1\<close>:
  the two quotients, 27.5 and 10, are floats exactly.
\<close>

definition canvas_size :: "nat \<times> nat" where
  "canvas_size = (20, 55)"

definition center :: "int \<times> int" where
  "center = (truncate (of_nat (snd canvas_size) / 2) - 3, truncate (of_nat (fst canvas_size) / 2) - 1)"

text \<open>The loop over the hexes, in the order of the dictionary.\<close>

fun stamp_hexes ::
  "colored \<Rightarrow> BoardRenderer \<Rightarrow> Board \<Rightarrow> Coords list \<Rightarrow> string list list \<Rightarrow> string list list action" where
  "stamp_hexes L self board [] buf = ret buf"
| "stamp_hexes L self board (hex_coords # rest) buf =
     seq (lift (get_hex_center_coords hex_coords)) (\<lambda>(x, y).
     seq (get_hex L self board hex_coords) (\<lambda>block.
     seq (lift (copy_into_array buf block (fst center + x) (snd center + y))) (\<lambda>buf'.
     stamp_hexes L self board rest buf')))"

text \<open>The loop over the harbors; it reads nothing that changes.\<close>

fun stamp_harbors ::
  "colored \<Rightarrow> Coords list \<Rightarrow> BoardRenderer \<Rightarrow> Board \<Rightarrow> Harbor list \<Rightarrow> string list list
     \<Rightarrow> error + string list list" where
  "stamp_harbors L offs self board [] buf = Inr buf"
| "stamp_harbors L offs self board (harbor # rest) buf =
     (case get_harbor_coords offs harbor board of
        Inl e \<Rightarrow> Inl e
      | Inr (x, y) \<Rightarrow>
          (case get_harbor L self harbor of
             Inl e \<Rightarrow> Inl e
           | Inr block \<Rightarrow>
               (case copy_into_array buf block (fst center + x) (snd center + y) of
                  Inl e \<Rightarrow> Inl e
                | Inr buf' \<Rightarrow> stamp_harbors L offs self board rest buf')))"

text \<open>\<^verbatim>\<open>get_board_as_string\<close>.\<close>

definition get_board_as_string ::
  "colored \<Rightarrow> Coords list \<Rightarrow> BoardRenderer \<Rightarrow> Board \<Rightarrow> string action" where
  "get_board_as_string L offs self board =
     (let buf = replicate (fst canvas_size) (replicate (snd canvas_size) (stylize L '' '' (bg L WATER_COLOR))) in
      seq (stamp_hexes L self board (map fst (hexes board)) buf) (\<lambda>buf1.
      seq (lift (stamp_harbors L offs self board (map snd (harbors board)) buf1)) (\<lambda>buf2.
      seq (lift (get_hex_center_coords (robber board))) (\<lambda>(x, y).
      seq (lift (copy_into_array buf2
                   [[stylize L ''R'' (fg L ''#FFFFFF'' @ bg L ''#000000'')]]
                   (fst center + x + 4) (snd center + y + 1))) (\<lambda>buf3.
      ret (join [CHR 0x0A] (map concat buf3)))))))"

subsection \<open>Actions that a larger colour map does not change\<close>

text \<open>
  \<open>map_grows self s t\<close>: the player colour map of \<open>self\<close> in \<open>t\<close> has every entry it
  has in \<open>s\<close>. An action is \<open>settled\<close> when a run of it that returns leaves a map that
  has grown, and when from any store whose map has the entries of that final map it
  returns the same value and changes nothing.
\<close>

definition map_grows :: "BoardRenderer \<Rightarrow> store \<Rightarrow> store \<Rightarrow> bool" where
  "map_grows self s t \<longleftrightarrow>
     dict_objs s (player_color_map self) \<subseteq>\<^sub>m dict_objs t (player_color_map self)"

definition settled :: "BoardRenderer \<Rightarrow> 'a action \<Rightarrow> bool" where
  "settled self m \<longleftrightarrow>
     (\<forall>s v s'. m s = Inr (v, s') \<longrightarrow>
        map_grows self s s' \<and> (\<forall>t. map_grows self s' t \<longrightarrow> m t = Inr (v, t)))"

subsection \<open>Invariant of the colour state\<close>

text \<open>
  The colours still in the palette are pairwise different, no two players have the same
  colour, and no assigned colour is still in the palette.
\<close>

definition palette_inv :: "BoardRenderer \<Rightarrow> store \<Rightarrow> bool" where
  "palette_inv self s \<longleftrightarrow>
     distinct (list_objs s (unused_player_colors self))
     \<and> inj_on (dict_objs s (player_color_map self)) (dom (dict_objs s (player_color_map self)))
     \<and> (\<forall>p c. dict_objs s (player_color_map self) p = Some c
            \<longrightarrow> c \<notin> set (list_objs s (unused_player_colors self)))"

subsection \<open>Example data\<close>

text \<open>
  A styling library for the examples, in the shape of \<^verbatim>\<open>colored\<close>: the codes, the
  text, and a reset code. A board with one harbor and nothing else.
\<close>

definition example_colored :: colored where
  "example_colored =
     \<lparr>fg = (\<lambda>c. ''<fg '' @ c @ ''>''), bg = (\<lambda>c. ''<bg '' @ c @ ''>''),
      stylize = (\<lambda>text styles. styles @ text @ ''<reset>'')\<rparr>"

definition example_harbor_board :: Board where
  "example_harbor_board =
     \<lparr>hexes = [], intersections = Map.empty, paths = Map.empty,
      harbors = [({\<lparr>q = 1, r = 0\<rparr>, \<lparr>q = 0, r = 1\<rparr>},
                  \<lparr>harbor_path_coords = [\<lparr>q = 1, r = 0\<rparr>, \<lparr>q = 0, r = 1\<rparr>],
                   harbor_resource = None\<rparr>)],
      robber = \<lparr>q = 0, r = 0\<rparr>\<rparr>"

text \<open>
  A board with one hex, a settlement of one player on a corner, a road of another on an
  edge, and the robber on the hex.
\<close>

definition example_hex_board :: Board where
  "example_hex_board =
     \<lparr>hexes = [(\<lparr>q = 0, r = 0\<rparr>, \<lparr>hex_type = FIELDS, token_number = Some 8\<rparr>)],
      intersections = map_of
        [(\<lparr>q = 1, r = - 1\<rparr>, \<lparr>intersection_building = None\<rparr>),
         (\<lparr>q = 1, r = 0\<rparr>,
            \<lparr>intersection_building =
               Some (CornerBuilding_init (Player 0) SETTLEMENT \<lparr>q = 1, r = 0\<rparr>)\<rparr>),
         (\<lparr>q = 0, r = 1\<rparr>, \<lparr>intersection_building = None\<rparr>),
         (\<lparr>q = - 1, r = 1\<rparr>, \<lparr>intersection_building = None\<rparr>),
         (\<lparr>q = - 1, r = 0\<rparr>, \<lparr>intersection_building = None\<rparr>),
         (\<lparr>q = 0, r = - 1\<rparr>, \<lparr>intersection_building = None\<rparr>)],
      paths = map_of
        [({\<lparr>q = 1, r = - 1\<rparr>, \<lparr>q = 1, r = 0\<rparr>},
            \<lparr>path_coords = [\<lparr>q = 1, r = - 1\<rparr>, \<lparr>q = 1, r = 0\<rparr>], path_building = None\<rparr>),
         ({\<lparr>q = 1, r = 0\<rparr>, \<lparr>q = 0, r = 1\<rparr>},
            \<lparr>path_coords = [\<lparr>q = 1, r = 0\<rparr>, \<lparr>q = 0, r = 1\<rparr>],
             path_building = Some (EdgeBuilding_init (Player 1) ROAD
                                     {\<lparr>q = 1, r = 0\<rparr>, \<lparr>q = 0, r = 1\<rparr>})\<rparr>),
         ({\<lparr>q = 0, r = 1\<rparr>, \<lparr>q = - 1, r = 1\<rparr>},
            \<lparr>path_coords = [\<lparr>q = 0, r = 1\<rparr>, \<lparr>q = - 1, r = 1\<rparr>], path_building = None\<rparr>),
         ({\<lparr>q = - 1, r = 1\<rparr>, \<lparr>q = - 1, r = 0\<rparr>},
            \<lparr>path_coords = [\<lparr>q = - 1, r = 1\<rparr>, \<lparr>q = - 1, r = 0\<rparr>], path_building = None\<rparr>),
         ({\<lparr>q = - 1, r = 0\<rparr>, \<lparr>q = 0, r = - 1\<rparr>},
            \<lparr>path_coords = [\<lparr>q = - 1, r = 0\<rparr>, \<lparr>q = 0, r = - 1\<rparr>], path_building = None\<rparr>),
         ({\<lparr>q = 0, r = - 1\<rparr>, \<lparr>q = 1, r = - 1\<rparr>},
            \<lparr>path_coords = [\<lparr>q = 0, r = - 1\<rparr>, \<lparr>q = 1, r = - 1\<rparr>], path_building = None\<rparr>)],
      harbors = [],
      robber = \<lparr>q = 0, r = 0\<rparr>\<rparr>"

section \<open>Roll-yield bookkeeping\<close>

text \<open>
  Claim C9. The constructor of \<^verbatim>\<open>RollYieldSource\<close> keeps only the building and the
  hex: the instance it builds is the same whatever resource and amount it is given.
  \<^verbatim>\<open>add_yield\<close>, on a yield whose table has an entry \<open>old\<close> for the resource,
  succeeds, raises that entry to \<open>old + amount\<close>, leaves every other entry alone, and
  adds the class object to \<^verbatim>\<open>all_yields\<close>; the source instance passed in is in the
  set afterwards only if it was there before.
\<close>

theorem C9_roll_yield_bookkeeping:
  "source_building (RollYieldSource_init resource amount building hex) = building
   \<and> source_hex (RollYieldSource_init resource amount building hex) = hex
   \<and> RollYieldSource_init resource amount building hex
       = RollYieldSource_init resource' amount' building hex
   \<and> (total_yield self res = Some old \<longrightarrow>
        (\<exists>self'. add_yield self res amt source = Inr self'
           \<and> total_yield self' res = Some (old + amt)
           \<and> (\<forall>other. other \<noteq> res \<longrightarrow> total_yield self' other = total_yield self other)
           \<and> all_yields self' = insert RollYieldSource_class (all_yields self)
           \<and> (RollYieldSource_instance source \<in> all_yields self'
                \<longleftrightarrow> RollYieldSource_instance source \<in> all_yields self)))"
  by (simp add: RollYieldSource_init_def add_yield_def)

theorem C9_roll_yield_bookkeeping_witness:
  "total_yield RollYield_init GRAIN = Some 0
   \<and> (\<exists>self'. add_yield RollYield_init GRAIN 2
          (RollYieldSource_init GRAIN 2
             (CornerBuilding_init (Player 0) SETTLEMENT \<lparr>q = 1, r = 0\<rparr>)
             \<lparr>hex_type = FIELDS, token_number = Some 8\<rparr>) = Inr self'
        \<and> total_yield self' GRAIN = Some 2
        \<and> total_yield self' ORE = Some 0
        \<and> all_yields self' = {RollYieldSource_class}
        \<and> RollYieldSource_instance (RollYieldSource_init GRAIN 2
             (CornerBuilding_init (Player 0) SETTLEMENT \<lparr>q = 1, r = 0\<rparr>)
             \<lparr>hex_type = FIELDS, token_number = Some 8\<rparr>) \<notin> all_yields self')"
  using C9_roll_yield_bookkeeping [of GRAIN 2
      "CornerBuilding_init (Player 0) SETTLEMENT \<lparr>q = 1, r = 0\<rparr>"
      "\<lparr>hex_type = FIELDS, token_number = Some 8\<rparr>" GRAIN 2 RollYield_init GRAIN 0 2
      "RollYieldSource_init GRAIN 2
         (CornerBuilding_init (Player 0) SETTLEMENT \<lparr>q = 1, r = 0\<rparr>)
         \<lparr>hex_type = FIELDS, token_number = Some 8\<rparr>"]
  by (auto simp add: RollYield_init_def)

section \<open>Player colours\<close>

text \<open>
  The three ways a lookup can go: the player has a colour; the player has none and the
  palette is empty; the player has none and takes the first colour of the palette.
\<close>

lemma get_player_color_known:
  "dict_objs s (player_color_map self) p = Some c \<Longrightarrow> get_player_color self p s = Inr (c, s)"
  by (simp add: get_player_color_def seq_def ret_def dict_getitem_def lift_def getitem_def dom_def)

lemma get_player_color_empty:
  "dict_objs s (player_color_map self) p = None \<Longrightarrow> list_objs s (unused_player_colors self) = []
   \<Longrightarrow> get_player_color self p s = Inl IndexError"
  by (simp add: get_player_color_def seq_def list_pop0_def dom_def)

lemma get_player_color_pop:
  "dict_objs s (player_color_map self) p = None \<Longrightarrow>
   list_objs s (unused_player_colors self) = c # rest \<Longrightarrow>
   get_player_color self p s =
     Inr (c, s\<lparr>list_objs := (list_objs s)(unused_player_colors self := rest),
               dict_objs := (dict_objs s)(player_color_map self :=
                              (dict_objs s (player_color_map self))(p \<mapsto> c))\<rparr>)"
  by (simp add: get_player_color_def seq_def list_pop0_def dict_setitem_def dict_getitem_def
      lift_def getitem_def dom_def)

lemma first_player_color:
  "get_player_color (BoardRenderer_init None None None) (Player 0) class_store =
     Inr (''#00c40d'',
          class_store\<lparr>list_objs := (list_objs class_store)
                         (DEFAULT_PLAYER_COLORS_ref := [''#ff00d9'', ''#0000FF'', ''#00FFFF'']),
                      dict_objs := (dict_objs class_store)
                         (default_player_color_map_ref := [Player 0 \<mapsto> ''#00c40d''])\<rparr>)"
  by (rule trans [OF get_player_color_pop [where c = "''#00c40d''"
          and rest = "[''#ff00d9'', ''#0000FF'', ''#00FFFF'']"]])
     (simp_all add: BoardRenderer_init_def class_store_def DEFAULT_PLAYER_COLORS_def)

lemma default_desert_color:
  "hex_color_map (BoardRenderer_init None None None) DESERT = Some ''#ffe5a3''"
  by (simp add: BoardRenderer_init_def DEFAULT_HEX_COLORS_def)

text \<open>
  A successful lookup keeps the invariant, leaves the player with the colour it
  returned, and only adds to the map.
\<close>

lemma get_player_color_inv:
  assumes "palette_inv self s" and "get_player_color self p s = Inr (c, s')"
  shows "palette_inv self s' \<and> dict_objs s' (player_color_map self) p = Some c
         \<and> dict_objs s (player_color_map self) \<subseteq>\<^sub>m dict_objs s' (player_color_map self)"
proof (cases "dict_objs s (player_color_map self) p")
  case (Some d)
  with assms show ?thesis by (simp add: get_player_color_known)
next
  case None
  show ?thesis
  proof (cases "list_objs s (unused_player_colors self)")
    case Nil
    with None assms show ?thesis by (simp add: get_player_color_empty)
  next
    case (Cons d rest)
    from get_player_color_pop [OF None Cons] assms(2)
    have c: "c = d"
      and s': "s' = s\<lparr>list_objs := (list_objs s)(unused_player_colors self := rest),
               dict_objs := (dict_objs s)(player_color_map self :=
                              (dict_objs s (player_color_map self))(p \<mapsto> d))\<rparr>"
      by simp_all
    from assms(1) Cons have inv: "d \<notin> set rest" "distinct rest"
      "inj_on (dict_objs s (player_color_map self)) (dom (dict_objs s (player_color_map self)))"
      "\<forall>p' c'. dict_objs s (player_color_map self) p' = Some c' \<longrightarrow> c' \<noteq> d \<and> c' \<notin> set rest"
      by (auto simp: palette_inv_def)
    have "inj_on ((dict_objs s (player_color_map self))(p \<mapsto> d))
            (dom ((dict_objs s (player_color_map self))(p \<mapsto> d)))"
      unfolding inj_on_def
    proof (intro ballI impI)
      fix x y
      assume x: "x \<in> dom ((dict_objs s (player_color_map self))(p \<mapsto> d))"
        and y: "y \<in> dom ((dict_objs s (player_color_map self))(p \<mapsto> d))"
        and eq: "((dict_objs s (player_color_map self))(p \<mapsto> d)) x
               = ((dict_objs s (player_color_map self))(p \<mapsto> d)) y"
      show "x = y"
      proof (cases "x = p")
        case True
        show ?thesis
        proof (rule ccontr)
          assume "x \<noteq> y"
          with True eq have "dict_objs s (player_color_map self) y = Some d"
            by (simp split: if_splits)
          with inv(4) show False by blast
        qed
      next
        case False
        have "y \<noteq> p"
        proof
          assume "y = p"
          with False eq have "dict_objs s (player_color_map self) x = Some d"
            by (simp split: if_splits)
          with inv(4) show False by blast
        qed
        with False x y eq inv(3) show ?thesis by (auto simp: dom_def dest: inj_onD)
      qed
    qed
    with inv None show ?thesis
      by (simp add: palette_inv_def s' c map_le_def dom_def)
  qed
qed

lemma get_player_colors_inv:
  "palette_inv self s \<Longrightarrow> get_player_colors self ps s = Inr (cs, s') \<Longrightarrow>
   palette_inv self s'
   \<and> dict_objs s (player_color_map self) \<subseteq>\<^sub>m dict_objs s' (player_color_map self)
   \<and> length cs = length ps
   \<and> (\<forall>i<length ps. dict_objs s' (player_color_map self) (ps ! i) = Some (cs ! i))"
proof (induction ps arbitrary: s cs)
  case Nil
  then show ?case by (simp add: ret_def)
next
  case (Cons p ps)
  from Cons.prems(2) obtain c s1 cs1 where
    1: "get_player_color self p s = Inr (c, s1)" and
    2: "get_player_colors self ps s1 = Inr (cs1, s')" and
    3: "cs = c # cs1"
    by (auto simp: seq_def ret_def split: sum.splits)
  from get_player_color_inv [OF Cons.prems(1) 1]
  have i1: "palette_inv self s1" "dict_objs s1 (player_color_map self) p = Some c"
    "dict_objs s (player_color_map self) \<subseteq>\<^sub>m dict_objs s1 (player_color_map self)"
    by simp_all
  from Cons.IH [OF i1(1) 2]
  have i2: "palette_inv self s'"
    "dict_objs s1 (player_color_map self) \<subseteq>\<^sub>m dict_objs s' (player_color_map self)"
    "length cs1 = length ps"
    "\<forall>i<length ps. dict_objs s' (player_color_map self) (ps ! i) = Some (cs1 ! i)"
    by simp_all
  have "dict_objs s' (player_color_map self) p = Some c"
    using i1(2) i2(2) by (auto simp: map_le_def dom_def)
  with i1 i2 3 show ?case
    by (auto simp: nth_Cons split: nat.splits intro: map_le_trans)
qed

text \<open>
  A run of lookups returns when the players in it that have no colour yet are no more
  than the colours left in the palette, and raises \<^verbatim>\<open>IndexError\<close> otherwise.
\<close>

lemma get_player_colors_result:
  "if card (set ps - dom (dict_objs s (player_color_map self)))
        \<le> length (list_objs s (unused_player_colors self))
   then (\<exists>cs s'. get_player_colors self ps s = Inr (cs, s'))
   else get_player_colors self ps s = Inl IndexError"
proof (induction ps arbitrary: s)
  case Nil
  then show ?case by (simp add: ret_def)
next
  case (Cons p ps)
  show ?case
  proof (cases "dict_objs s (player_color_map self) p")
    case (Some c)
    then have "set (p # ps) - dom (dict_objs s (player_color_map self))
        = set ps - dom (dict_objs s (player_color_map self))"
      by auto
    with Cons.IH [of s] Some show ?thesis
      by (auto simp: get_player_color_known seq_def ret_def)
  next
    case None
    then have card: "card (set (p # ps) - dom (dict_objs s (player_color_map self)))
        = Suc (card (set ps - dom (dict_objs s (player_color_map self)) - {p}))"
      by (subst card_insert_disjoint [symmetric]) (auto intro!: arg_cong [where f = card])
    show ?thesis
    proof (cases "list_objs s (unused_player_colors self)")
      case Nil
      with None card show ?thesis
        by (simp add: get_player_color_empty seq_def)
    next
      case pal: (Cons c rest)
      let ?s1 = "s\<lparr>list_objs := (list_objs s)(unused_player_colors self := rest),
               dict_objs := (dict_objs s)(player_color_map self :=
                              (dict_objs s (player_color_map self))(p \<mapsto> c))\<rparr>"
      have d: "set ps - dom (dict_objs ?s1 (player_color_map self))
          = set ps - dom (dict_objs s (player_color_map self)) - {p}"
        by auto
      have l: "list_objs ?s1 (unused_player_colors self) = rest"
        by simp
      have step: "get_player_colors self (p # ps) s
          = (case get_player_colors self ps ?s1 of Inl e \<Rightarrow> Inl e | Inr (cs, s') \<Rightarrow> Inr (c # cs, s'))"
        by (simp add: get_player_color_pop [OF None pal] seq_def ret_def split: sum.splits)
      from Cons.IH [of ?s1] show ?thesis
        unfolding d l step card pal by (auto split: if_splits)
    qed
  qed
qed

text \<open>
  Claim C3. On an instance whose player colour map is empty and whose palette holds the
  four default colours, in any run of lookups that returns, two lookups give the same
  colour exactly when they are for the same player: distinct players get distinct
  colours, and a repeated lookup gives the colour of the first one.
\<close>

theorem C3_player_colors_distinct_and_stable:
  assumes "list_objs s (unused_player_colors self) = DEFAULT_PLAYER_COLORS"
    and "dict_objs s (player_color_map self) = Map.empty"
    and "get_player_colors self ps s = Inr (cs, s')"
  shows "length cs = length ps
         \<and> (\<forall>i<length ps. \<forall>j<length ps. (cs ! i = cs ! j) = (ps ! i = ps ! j))"
proof -
  have "palette_inv self s"
    using assms(1,2) by (simp add: palette_inv_def DEFAULT_PLAYER_COLORS_def)
  from get_player_colors_inv [OF this assms(3)]
  have inv: "palette_inv self s'" and len: "length cs = length ps"
    and at: "\<And>i. i < length ps \<Longrightarrow> dict_objs s' (player_color_map self) (ps ! i) = Some (cs ! i)"
    by simp_all
  from inv have inj: "inj_on (dict_objs s' (player_color_map self))
      (dom (dict_objs s' (player_color_map self)))"
    by (simp add: palette_inv_def)
  have "(cs ! i = cs ! j) = (ps ! i = ps ! j)" if "i < length ps" "j < length ps" for i j
  proof
    assume "cs ! i = cs ! j"
    with at [OF that(1)] at [OF that(2)]
    have "dict_objs s' (player_color_map self) (ps ! i) = dict_objs s' (player_color_map self) (ps ! j)"
      by simp
    moreover have "ps ! i \<in> dom (dict_objs s' (player_color_map self))"
      "ps ! j \<in> dom (dict_objs s' (player_color_map self))"
      using at [OF that(1)] at [OF that(2)] by auto
    ultimately show "ps ! i = ps ! j" using inj by (auto dest: inj_onD)
  next
    assume "ps ! i = ps ! j"
    with at [OF that(1)] at [OF that(2)] show "cs ! i = cs ! j" by simp
  qed
  with len show ?thesis by simp
qed

theorem C3_player_colors_distinct_and_stable_witness:
  "list_objs class_store (unused_player_colors (BoardRenderer_init None None None))
     = DEFAULT_PLAYER_COLORS
   \<and> dict_objs class_store (player_color_map (BoardRenderer_init None None None)) = Map.empty
   \<and> (\<exists>cs s'. get_player_colors (BoardRenderer_init None None None)
                   [Player 0, Player 1, Player 0] class_store = Inr (cs, s')
          \<and> length cs = 3 \<and> cs ! 0 = cs ! 2 \<and> cs ! 0 \<noteq> cs ! 1)"
proof -
  let ?r = "BoardRenderer_init None None None"
  have h1: "list_objs class_store (unused_player_colors ?r) = DEFAULT_PLAYER_COLORS"
    by (simp add: class_store_def BoardRenderer_init_def)
  have h2: "dict_objs class_store (player_color_map ?r) = Map.empty"
    by (simp add: class_store_def BoardRenderer_init_def)
  from get_player_colors_result [of "[Player 0, Player 1, Player 0]" class_store ?r]
  obtain cs s' where run: "get_player_colors ?r [Player 0, Player 1, Player 0] class_store = Inr (cs, s')"
    by (auto simp: h1 h2 DEFAULT_PLAYER_COLORS_def card_insert_if split: if_splits)
  from C3_player_colors_distinct_and_stable [OF h1 h2 run] have "length cs = 3 \<and> cs ! 0 = cs ! 2 \<and> cs ! 0 \<noteq> cs ! 1"
    by (auto simp: numeral_3_eq_3)
  with h1 h2 run show ?thesis by blast
qed

text \<open>
  Claim C4, amended. What decides a run of lookups is the state of the instance, which a
  constructor call does not fix: the players of the run that are not yet in the player
  colour map must be no more than the colours left in the palette. Then every lookup
  returns; otherwise the run raises \<^verbatim>\<open>IndexError\<close> and returns no colour. For an
  instance with an empty map and the four default colours in its palette this is the
  claim's bound: at most four distinct players are served, and a fifth raises.
\<close>

theorem C4_requests_return_while_palette_lasts:
  "(card (set ps - dom (dict_objs s (player_color_map self)))
        \<le> length (list_objs s (unused_player_colors self))
      \<longrightarrow> (\<exists>cs s'. get_player_colors self ps s = Inr (cs, s')))
   \<and> (length (list_objs s (unused_player_colors self))
        < card (set ps - dom (dict_objs s (player_color_map self)))
      \<longrightarrow> get_player_colors self ps s = Inl IndexError)
   \<and> (list_objs s (unused_player_colors self) = DEFAULT_PLAYER_COLORS
        \<longrightarrow> dict_objs s (player_color_map self) = Map.empty
        \<longrightarrow> (card (set ps) \<le> 4 \<longrightarrow> (\<exists>cs s'. get_player_colors self ps s = Inr (cs, s')))
            \<and> (4 < card (set ps) \<longrightarrow> get_player_colors self ps s = Inl IndexError))"
  using get_player_colors_result [of ps s self]
  by (auto simp: DEFAULT_PLAYER_COLORS_def)

theorem C4_requests_return_while_palette_lasts_witness:
  "list_objs class_store (unused_player_colors (BoardRenderer_init None None None))
     = DEFAULT_PLAYER_COLORS
   \<and> dict_objs class_store (player_color_map (BoardRenderer_init None None None)) = Map.empty
   \<and> card (set [Player 0, Player 1, Player 2, Player 3]) = 4
   \<and> (\<exists>cs s'. get_player_colors (BoardRenderer_init None None None)
                   [Player 0, Player 1, Player 2, Player 3] class_store = Inr (cs, s'))
   \<and> card (set [Player 0, Player 1, Player 2, Player 3, Player 4]) = 5
   \<and> get_player_colors (BoardRenderer_init None None None)
        [Player 0, Player 1, Player 2, Player 3, Player 4] class_store = Inl IndexError"
proof -
  let ?r = "BoardRenderer_init None None None"
  have h1: "list_objs class_store (unused_player_colors ?r) = DEFAULT_PLAYER_COLORS"
    by (simp add: class_store_def BoardRenderer_init_def)
  have h2: "dict_objs class_store (player_color_map ?r) = Map.empty"
    by (simp add: class_store_def BoardRenderer_init_def)
  have c4: "card (set [Player 0, Player 1, Player 2, Player 3]) = 4"
    and c5: "card (set [Player 0, Player 1, Player 2, Player 3, Player 4]) = 5"
    by (simp_all add: card_insert_if)
  show ?thesis
    using h1 h2 c4 c5
      C4_requests_return_while_palette_lasts
        [of "[Player 0, Player 1, Player 2, Player 3]" class_store ?r]
      C4_requests_return_while_palette_lasts
        [of "[Player 0, Player 1, Player 2, Player 3, Player 4]" class_store ?r]
    by simp
qed

text \<open>
  The claim as it is worded fails on an instance constructed with a player colour map
  that already has an entry, \<^verbatim>\<open>BoardRenderer(player_color_map={p4: '#FFFFFF'})\<close> with
  the caller's dictionary at address 1: five distinct players are served, the fifth from
  the map.
\<close>

theorem C4_prepopulated_map_serves_five_players:
  "map_sum id fst
     (get_player_colors (BoardRenderer_init (Some 1) None None)
        [Player 0, Player 1, Player 2, Player 3, Player 4]
        (class_store\<lparr>dict_objs := (dict_objs class_store)(1 := [Player 4 \<mapsto> ''#FFFFFF''])\<rparr>))
   = Inr [''#00c40d'', ''#ff00d9'', ''#0000FF'', ''#00FFFF'', ''#FFFFFF'']"
  by (simp add: get_player_color_def seq_def ret_def lift_def list_pop0_def dict_setitem_def
      dict_getitem_def getitem_def BoardRenderer_init_def class_store_def
      DEFAULT_PLAYER_COLORS_def DEFAULT_PLAYER_COLORS_ref_def dom_def)

text \<open>
  Claim C2. Two renderers built with default arguments hold the same palette object and
  the same map object: after the first of them assigns a colour to a player in the store
  left by the class definition, the palette of the second has lost that colour and the
  map of the second has gained the player. The colour state is not scoped to one
  instance.
\<close>

theorem C2_color_state_shared_between_instances:
  "\<exists>s'. get_player_color (BoardRenderer_init None None None) (Player 0) class_store
            = Inr (''#00c40d'', s')
       \<and> list_objs class_store (unused_player_colors (BoardRenderer_init None None None))
            = [''#00c40d'', ''#ff00d9'', ''#0000FF'', ''#00FFFF'']
       \<and> list_objs s' (unused_player_colors (BoardRenderer_init None None None))
            = [''#ff00d9'', ''#0000FF'', ''#00FFFF'']
       \<and> dict_objs class_store (player_color_map (BoardRenderer_init None None None)) (Player 0)
            = None
       \<and> dict_objs s' (player_color_map (BoardRenderer_init None None None)) (Player 0)
            = Some ''#00c40d''"
  by (simp add: first_player_color)
     (simp add: class_store_def BoardRenderer_init_def DEFAULT_PLAYER_COLORS_def)

section \<open>Glyphs\<close>

text \<open>
  Claim C5. For a path whose coordinate pair is a key of the harbors, with the
  background \<open>back\<close> that the renderer has for \<^verbatim>\<open>DESERT\<close>: without a building every
  character of the edge is styled with foreground \<^verbatim>\<open>#000000\<close> on \<open>back\<close> and the store
  is unchanged; with a building the foreground is the colour that the lookup of its
  owner returns, the harbor notwithstanding.
\<close>

theorem C5_harbor_edge_glyph:
  "set (path_coords path) \<in> fst ` set (harbors board) \<Longrightarrow>
   hex_color_map self DESERT = Some back \<Longrightarrow>
   (path_building path = None \<longrightarrow>
      get_path L self chars path board s
        = Inr (map (\<lambda>x. stylize L x (fg L ''#000000'' @ bg L back)) chars, s))
   \<and> (\<forall>b c s'. path_building path = Some b \<longrightarrow>
         get_player_color self (owner b) s = Inr (c, s') \<longrightarrow>
         get_path L self chars path board s
           = Inr (map (\<lambda>x. stylize L x (fg L c @ bg L back)) chars, s'))"
  by (simp add: get_path_def getitem_def seq_def ret_def lift_def)

theorem C5_harbor_edge_glyph_witness:
  "set [\<lparr>q = 0, r = 1\<rparr>, \<lparr>q = 1, r = 0\<rparr>] \<in> fst ` set (harbors example_harbor_board)
   \<and> hex_color_map (BoardRenderer_init None None None) DESERT = Some ''#ffe5a3''
   \<and> get_path example_colored (BoardRenderer_init None None None) [''-'', ''-'']
         \<lparr>path_coords = [\<lparr>q = 0, r = 1\<rparr>, \<lparr>q = 1, r = 0\<rparr>], path_building = None\<rparr>
         example_harbor_board class_store
       = Inr ([''<fg #000000><bg #ffe5a3>-<reset>'', ''<fg #000000><bg #ffe5a3>-<reset>''],
              class_store)
   \<and> (\<exists>s'. get_player_color (BoardRenderer_init None None None) (Player 0) class_store
              = Inr (''#00c40d'', s')
         \<and> get_path example_colored (BoardRenderer_init None None None) [''-'', ''-'']
              \<lparr>path_coords = [\<lparr>q = 0, r = 1\<rparr>, \<lparr>q = 1, r = 0\<rparr>],
               path_building = Some (EdgeBuilding_init (Player 0) ROAD
                                       {\<lparr>q = 0, r = 1\<rparr>, \<lparr>q = 1, r = 0\<rparr>})\<rparr>
              example_harbor_board class_store
            = Inr ([''<fg #00c40d><bg #ffe5a3>-<reset>'', ''<fg #00c40d><bg #ffe5a3>-<reset>''], s'))"
proof -
  have h: "set (path_coords \<lparr>path_coords = [\<lparr>q = 0, r = 1\<rparr>, \<lparr>q = 1, r = 0\<rparr>], path_building = pb\<rparr>)
       \<in> fst ` set (harbors example_harbor_board)" for pb
    by (simp add: example_harbor_board_def insert_commute)
  show ?thesis
    using h [of None]
      C5_harbor_edge_glyph [OF h default_desert_color, of None example_colored "[''-'', ''-'']" class_store]
      C5_harbor_edge_glyph [OF h default_desert_color,
        of "Some (EdgeBuilding_init (Player 0) ROAD {\<lparr>q = 0, r = 1\<rparr>, \<lparr>q = 1, r = 0\<rparr>})"
           example_colored "[''-'', ''-'']" class_store]
    by (simp add: default_desert_color first_player_color example_colored_def
        EdgeBuilding_init_def Building_init_def Building.extend_def EdgeBuilding.fields_def)
qed

text \<open>
  Claim C6. With \<open>col\<close> the colour of the hex type: a hex without a token gives five
  blank cells on \<open>col\<close>; a hex with token 6 or 8 gives the token in \<^verbatim>\<open>#FF0000\<close> on
  \<^verbatim>\<open>#FFFFFF\<close>, and with any other token in \<^verbatim>\<open>#000000\<close> on \<^verbatim>\<open>#FFFFFF\<close>, between
  blank cells on \<open>col\<close>.
\<close>

theorem C6_hex_center_glyph:
  "hex_color_map self (hex_type h) = Some col \<Longrightarrow>
   (token_number h = None \<longrightarrow>
      get_hex_center L self h = Inr (replicate 5 (stylize L '' '' (bg L col))))
   \<and> (\<forall>n. token_number h = Some n \<longrightarrow>
        (n = 6 \<or> n = 8 \<longrightarrow>
           get_hex_center L self h =
             Inr [stylize L '' '' (bg L col),
                  if n < 10 then stylize L '' '' (bg L col) else [],
                  stylize L (str_int n) (fg L ''#FF0000'' @ bg L ''#FFFFFF''),
                  stylize L '' '' (bg L col), stylize L '' '' (bg L col)])
      \<and> (n \<noteq> 6 \<and> n \<noteq> 8 \<longrightarrow>
           get_hex_center L self h =
             Inr [stylize L '' '' (bg L col),
                  if n < 10 then stylize L '' '' (bg L col) else [],
                  stylize L (str_int n) (fg L ''#000000'' @ bg L ''#FFFFFF''),
                  stylize L '' '' (bg L col), stylize L '' '' (bg L col)]))"
  by (simp add: get_hex_center_def getitem_def Let_def)

theorem C6_hex_center_glyph_witness:
  "hex_color_map (BoardRenderer_init None None None) FIELDS = Some ''#ffea29''
   \<and> hex_color_map (BoardRenderer_init None None None) DESERT = Some ''#ffe5a3''
   \<and> get_hex_center example_colored (BoardRenderer_init None None None)
         \<lparr>hex_type = DESERT, token_number = None\<rparr>
       = Inr [''<bg #ffe5a3> <reset>'', ''<bg #ffe5a3> <reset>'', ''<bg #ffe5a3> <reset>'',
              ''<bg #ffe5a3> <reset>'', ''<bg #ffe5a3> <reset>'']
   \<and> get_hex_center example_colored (BoardRenderer_init None None None)
         \<lparr>hex_type = FIELDS, token_number = Some 8\<rparr>
       = Inr [''<bg #ffea29> <reset>'', ''<bg #ffea29> <reset>'',
              ''<fg #FF0000><bg #FFFFFF>8<reset>'',
              ''<bg #ffea29> <reset>'', ''<bg #ffea29> <reset>'']
   \<and> get_hex_center example_colored (BoardRenderer_init None None None)
         \<lparr>hex_type = FIELDS, token_number = Some 11\<rparr>
       = Inr [''<bg #ffea29> <reset>'', [],
              ''<fg #000000><bg #FFFFFF>11<reset>'',
              ''<bg #ffea29> <reset>'', ''<bg #ffea29> <reset>'']"
proof -
  have f: "hex_color_map (BoardRenderer_init None None None)
             (hex_type \<lparr>hex_type = FIELDS, token_number = t\<rparr>) = Some ''#ffea29''" for t
    by (simp add: BoardRenderer_init_def DEFAULT_HEX_COLORS_def)
  have d: "hex_color_map (BoardRenderer_init None None None)
             (hex_type \<lparr>hex_type = DESERT, token_number = t\<rparr>) = Some ''#ffe5a3''" for t
    by (simp add: BoardRenderer_init_def DEFAULT_HEX_COLORS_def)
  have s8: "str_int 8 = ''8''" and s11: "str_int 11 = ''11''"
    by (simp_all add: str_int_def digit_char_def)
  show ?thesis
    using f [of None] d [of None]
      C6_hex_center_glyph [OF d, of None example_colored]
      C6_hex_center_glyph [OF f, of "Some 8" example_colored]
      C6_hex_center_glyph [OF f, of "Some 11" example_colored]
    by (simp add: example_colored_def s8 s11 numeral_eq_Suc)
qed

text \<open>
  Claim C7. With the background \<open>back\<close> that the renderer has for \<^verbatim>\<open>DESERT\<close>: an
  intersection without a building gives the placeholder character it was called with, in
  foreground \<^verbatim>\<open>#9c7500\<close> on \<open>back\<close>; with a \<^verbatim>\<open>SETTLEMENT\<close> it gives \<^verbatim>\<open>s\<close>, with a
  \<^verbatim>\<open>CITY\<close> it gives \<^verbatim>\<open>c\<close>, in the colour that the lookup of the owner returns.
\<close>

theorem C7_corner_glyph:
  "hex_color_map self DESERT = Some back \<Longrightarrow>
   (intersection_building i = None \<longrightarrow>
      get_intersection L self char i s
        = Inr ([stylize L char (fg L ''#9c7500'' @ bg L back)], s))
   \<and> (\<forall>b c s'. intersection_building i = Some b \<longrightarrow>
         get_player_color self (owner b) s = Inr (c, s') \<longrightarrow>
           (building_type b = SETTLEMENT \<longrightarrow>
              get_intersection L self char i s = Inr ([stylize L ''s'' (fg L c @ bg L back)], s'))
         \<and> (building_type b = CITY \<longrightarrow>
              get_intersection L self char i s = Inr ([stylize L ''c'' (fg L c @ bg L back)], s')))"
  by (simp add: get_intersection_def getitem_def seq_def ret_def lift_def)

theorem C7_corner_glyph_witness:
  "hex_color_map (BoardRenderer_init None None None) DESERT = Some ''#ffe5a3''
   \<and> get_intersection example_colored (BoardRenderer_init None None None) ''.''
         \<lparr>intersection_building = None\<rparr> class_store
       = Inr ([''<fg #9c7500><bg #ffe5a3>.<reset>''], class_store)
   \<and> (\<exists>s'. get_player_color (BoardRenderer_init None None None) (Player 0) class_store
              = Inr (''#00c40d'', s')
         \<and> get_intersection example_colored (BoardRenderer_init None None None) ''.''
              \<lparr>intersection_building =
                 Some (CornerBuilding_init (Player 0) SETTLEMENT \<lparr>q = 1, r = 0\<rparr>)\<rparr> class_store
            = Inr ([''<fg #00c40d><bg #ffe5a3>s<reset>''], s')
         \<and> get_intersection example_colored (BoardRenderer_init None None None) ''.''
              \<lparr>intersection_building =
                 Some (CornerBuilding_init (Player 0) CITY \<lparr>q = 1, r = 0\<rparr>)\<rparr> class_store
            = Inr ([''<fg #00c40d><bg #ffe5a3>c<reset>''], s'))"
  using C7_corner_glyph [OF default_desert_color,
      of "\<lparr>intersection_building = None\<rparr>" example_colored "''.''" class_store]
    C7_corner_glyph [OF default_desert_color,
      of "\<lparr>intersection_building =
            Some (CornerBuilding_init (Player 0) SETTLEMENT \<lparr>q = 1, r = 0\<rparr>)\<rparr>"
         example_colored "''.''" class_store]
    C7_corner_glyph [OF default_desert_color,
      of "\<lparr>intersection_building =
            Some (CornerBuilding_init (Player 0) CITY \<lparr>q = 1, r = 0\<rparr>)\<rparr>"
         example_colored "''.''" class_store]
  by (simp add: default_desert_color first_player_color example_colored_def
      CornerBuilding_init_def Building_init_def Building.extend_def CornerBuilding.fields_def)

text \<open>
  Claim C10. An intersection with a building of any type other than \<^verbatim>\<open>SETTLEMENT\<close>
  gives \<^verbatim>\<open>c\<close> in the owner's colour: the code tests for \<^verbatim>\<open>SETTLEMENT\<close> only, so a
  \<^verbatim>\<open>ROAD\<close> at a corner is drawn as a city.
\<close>

theorem C10_non_settlement_renders_as_city:
  "intersection_building i = Some b \<Longrightarrow> building_type b \<noteq> SETTLEMENT \<Longrightarrow>
   hex_color_map self DESERT = Some back \<Longrightarrow>
   get_player_color self (owner b) s = Inr (c, s') \<Longrightarrow>
   get_intersection L self char i s = Inr ([stylize L ''c'' (fg L c @ bg L back)], s')"
  by (simp add: get_intersection_def getitem_def seq_def ret_def lift_def)

theorem C10_non_settlement_renders_as_city_witness:
  "\<exists>s'. get_player_color (BoardRenderer_init None None None) (Player 0) class_store
             = Inr (''#00c40d'', s')
        \<and> building_type (CornerBuilding_init (Player 0) ROAD \<lparr>q = 1, r = 0\<rparr>) \<noteq> SETTLEMENT
        \<and> get_intersection example_colored (BoardRenderer_init None None None) ''.''
              \<lparr>intersection_building =
                 Some (CornerBuilding_init (Player 0) ROAD \<lparr>q = 1, r = 0\<rparr>)\<rparr> class_store
            = Inr ([''<fg #00c40d><bg #ffe5a3>c<reset>''], s')"
  using C10_non_settlement_renders_as_city [of
      "\<lparr>intersection_building =
            Some (CornerBuilding_init (Player 0) ROAD \<lparr>q = 1, r = 0\<rparr>)\<rparr>"
      "CornerBuilding_init (Player 0) ROAD \<lparr>q = 1, r = 0\<rparr>"
      "BoardRenderer_init None None None" "''#ffe5a3''" class_store "''#00c40d''" _
      example_colored "''.''"]
  by (simp add: default_desert_color first_player_color example_colored_def
      CornerBuilding_init_def Building_init_def Building.extend_def CornerBuilding.fields_def)

section \<open>Projection\<close>

text \<open>
  Rounding to a float moves a number of magnitude below \<open>2 ^ 34\<close> by at most
  \<open>2 ^ (- 20)\<close>: the rounded value is a multiple of a power of two that is at most
  \<open>2 ^ (- 19)\<close>, and it is a nearest one. Such a number does not overflow.
\<close>

lemma round_half_even_error: "\<bar>of_int (round_half_even y) - y\<bar> \<le> 1 / 2"
proof -
  have "of_int \<lfloor>y\<rfloor> \<le> y" and "y < of_int \<lfloor>y\<rfloor> + 1"
    by linarith+
  then show ?thesis
    by (auto simp: round_half_even_def Let_def)
qed

lemma pow2_pos: "0 < pow2 e"
  by (simp add: pow2_def)

lemma pow2_small: "e \<le> - 19 \<Longrightarrow> pow2 e \<le> 1 / 2 ^ 19"
proof -
  assume e: "e \<le> - 19"
  then have "19 \<le> nat (- e)" by simp
  then have "(2::rat) ^ 19 \<le> 2 ^ nat (- e)"
    by (rule power_increasing) simp
  then have "1 / (2::rat) ^ nat (- e) \<le> 1 / 2 ^ 19"
    by (simp add: field_simps)
  with e show ?thesis by (simp add: pow2_def)
qed

lemma ilog2_small: "0 < x \<Longrightarrow> x < 2 ^ 34 \<Longrightarrow> ilog2 x \<le> 33"
proof (cases "1 \<le> x")
  case True
  assume "x < 2 ^ 34"
  then have "\<lfloor>x\<rfloor> < 2 ^ 34" by (simp add: floor_less_iff)
  then have "bitlen \<lfloor>x\<rfloor> \<le> 34" by (simp add: bitlen_le_iff_power)
  with True show ?thesis by (simp add: ilog2_def)
next
  case False
  have "0 \<le> bitlen (\<lceil>1 / x\<rceil> - 1)" by (rule bitlen_nonneg)
  with False show ?thesis by (simp add: ilog2_def)
qed

lemma round_binary64_error:
  assumes "\<bar>x\<bar> < 2 ^ 34"
  shows "\<bar>round_binary64 x - x\<bar> \<le> 1 / 2 ^ 20"
proof (cases "x = 0")
  case True
  then show ?thesis by (simp add: round_binary64_def)
next
  case False
  define e where "e = max (ilog2 \<bar>x\<bar> - 52) (- 1074)"
  define p where "p = pow2 e"
  from False assms have "ilog2 \<bar>x\<bar> \<le> 33" by (intro ilog2_small) simp_all
  then have "e \<le> - 19" by (simp add: e_def)
  then have "pow2 e \<le> 1 / 2 ^ 19" by (rule pow2_small)
  then have p: "0 < p" "p \<le> 1 / 2 ^ 19" by (simp_all add: p_def pow2_pos)
  have fl: "round_binary64 x = of_int (round_half_even (x / p)) * p"
    using False by (simp add: round_binary64_def Let_def e_def p_def)
  have "round_binary64 x - x = (of_int (round_half_even (x / p)) - x / p) * p"
    using p(1) by (simp add: fl field_simps)
  then have "\<bar>round_binary64 x - x\<bar> = \<bar>of_int (round_half_even (x / p)) - x / p\<bar> * p"
    using p(1) by (simp add: abs_mult)
  also have "\<dots> \<le> 1 / 2 * p"
    using round_half_even_error [of "x / p"] p(1) by (intro mult_right_mono) simp_all
  also have "\<dots> \<le> 1 / 2 * (1 / 2 ^ 19)"
    using p(2) by (intro mult_left_mono) simp_all
  finally show ?thesis by simp
qed

lemma to_pyfloat_Finite:
  assumes "\<bar>x\<bar> < 2 ^ 33"
  shows "to_pyfloat x = Finite (round_binary64 x)"
proof -
  from assms have "\<bar>x\<bar> < 2 ^ 34" by simp
  from round_binary64_error [OF this] have "\<bar>round_binary64 x - x\<bar> \<le> 1" by simp
  with assms have "\<bar>round_binary64 x\<bar> < 2 ^ 34" by simp
  then have "round_binary64 x \<noteq> 0 \<Longrightarrow> ilog2 \<bar>round_binary64 x\<bar> \<le> 33"
    by (intro ilog2_small) simp_all
  then have "round_binary64 x = 0 \<or> ilog2 \<bar>round_binary64 x\<bar> < 1024"
    by (cases "round_binary64 x = 0") simp_all
  then show ?thesis by (simp add: to_pyfloat_def Let_def)
qed

text \<open>
  The error of a product of two approximations.
\<close>

lemma product_close:
  fixes a b a0 b0 d :: rat
  assumes "\<bar>a - a0\<bar> \<le> d" "\<bar>b - b0\<bar> \<le> d" "\<bar>a0\<bar> \<le> 2" "\<bar>b0\<bar> \<le> 33" "d \<le> 1"
  shows "\<bar>a * b - a0 * b0\<bar> \<le> 36 * d"
proof -
  from assms have d: "0 \<le> d" by linarith
  from assms have b: "\<bar>b\<bar> \<le> 34" by linarith
  have "a * b - a0 * b0 = (a - a0) * b + a0 * (b - b0)" by (simp add: algebra_simps)
  then have "\<bar>a * b - a0 * b0\<bar> \<le> \<bar>a - a0\<bar> * \<bar>b\<bar> + \<bar>a0\<bar> * \<bar>b - b0\<bar>"
    by (simp add: abs_mult [symmetric] abs_triangle_ineq)
  also have "\<bar>a - a0\<bar> * \<bar>b\<bar> \<le> d * 34"
    using assms(1) b d by (intro mult_mono) simp_all
  also have "\<bar>a0\<bar> * \<bar>b - b0\<bar> \<le> 2 * d"
    using assms(2,3) d by (intro mult_mono) simp_all
  finally show ?thesis by simp
qed

text \<open>
  For an integer \<open>t\<close> other than 0 and between \<open>- 100\<close> and \<open>100\<close>, \<open>0.67 * t\<close> is no
  integer: it is at least one hundredth away from the integers around it. A number within
  \<open>1 / 200\<close> of it then has the same integer part.
\<close>

lemma residue:
  fixes t :: int
  assumes "t \<noteq> 0" and "\<bar>t\<bar> < 100"
  shows "(67 * t) mod 100 \<noteq> 0"
proof
  assume "(67 * t) mod 100 = 0"
  then have "100 dvd 67 * t" by (simp add: dvd_eq_mod_eq_0)
  then have "100 dvd 3 * (67 * t)" by (rule dvd_mult)
  moreover have "(100::int) dvd 2 * (100 * t)" by simp
  ultimately have "100 dvd 3 * (67 * t) - 2 * (100 * t)" by (rule dvd_diff)
  moreover have "3 * (67 * t) - 2 * (100 * t) = t" by simp
  ultimately have "100 dvd t" by simp
  with assms(1) have "\<bar>100\<bar> \<le> \<bar>t\<bar>" by (intro dvd_imp_le_int)
  with assms(2) show False by simp
qed

lemma truncate_close:
  fixes t :: int and s :: rat
  assumes t: "\<bar>t\<bar> < 100" and s: "\<bar>s - of_int (67 * t) / 100\<bar> \<le> 1 / 200"
  shows "truncate s = truncate (of_int (67 * t) / 100)"
proof (cases "t = 0")
  case True
  with s have "- 1 < s" "s < 1" by simp_all
  then have "0 \<le> s \<Longrightarrow> \<lfloor>s\<rfloor> = 0" and "s < 0 \<Longrightarrow> \<lceil>s\<rceil> = 0"
    by (simp_all add: floor_eq_iff ceiling_eq_iff)
  with True show ?thesis by (auto simp: truncate_def)
next
  case False
  define k where "k = (67 * t) div 100"
  define m where "m = (67 * t) mod 100"
  have km: "67 * t = 100 * k + m" by (simp add: k_def m_def)
  from False t have "m \<noteq> 0" unfolding m_def by (rule residue)
  moreover have "0 \<le> m" "m < 100" by (simp_all add: m_def)
  ultimately have m: "1 \<le> m" "m \<le> 99" by simp_all
  define v :: rat where "v = of_int (67 * t) / 100"
  have v: "v = of_int k + of_int m / 100" by (simp add: v_def km)
  from m have "(1::rat) \<le> of_int m" "(of_int m :: rat) \<le> 99" by simp_all
  then have vb: "of_int k + 1 / 100 \<le> v" "v \<le> of_int k + 99 / 100" by (simp_all add: v)
  from s have sb: "v - 1 / 200 \<le> s" "s \<le> v + 1 / 200" unfolding v_def by linarith+
  from vb sb have sk: "of_int k < s" "s < of_int k + 1" by simp_all
  from vb have vk: "of_int k < v" "v < of_int k + 1" by simp_all
  have fl: "\<lfloor>s\<rfloor> = k" "\<lfloor>v\<rfloor> = k" using sk vk by (simp_all add: floor_eq_iff)
  have ce: "\<lceil>s\<rceil> = k + 1" "\<lceil>v\<rceil> = k + 1" using sk vk by (simp_all add: ceiling_eq_iff)
  have sign: "0 \<le> s \<longleftrightarrow> 0 \<le> v"
  proof (cases "0 < t")
    case True
    then have "0 \<le> k" by (simp add: k_def pos_imp_zdiv_nonneg_iff)
    then have "(0::rat) \<le> of_int k" by simp
    with sk vk show ?thesis by simp
  next
    case neg: False
    with False have "t < 0" by simp
    then have "k < 0" by (simp add: k_def div_neg_pos_less0)
    then have "k + 1 \<le> 0" by simp
    then have "(of_int (k + 1) :: rat) \<le> 0" by (simp only: of_int_le_0_iff)
    then have "(of_int k :: rat) + 1 \<le> 0" by simp
    with sk vk show ?thesis by simp
  qed
  show ?thesis
    unfolding v_def [symmetric] using fl ce sign by (simp add: truncate_def)
qed

text \<open>
  One term of the projection, \<^verbatim>\<open>k * n\<close> for a literal \<open>k\<close> and an integer \<open>n\<close>: the
  conversion of \<open>n\<close>, the rounding of the literal and the rounding of the product
  together move it by less than \<open>2 ^ (- 14)\<close>.
\<close>

lemma round_binary64_close:
  assumes "\<bar>x\<bar> \<le> 100"
  shows "to_pyfloat x = Finite (round_binary64 x)" and "\<bar>round_binary64 x - x\<bar> \<le> 1 / 1048576"
proof -
  from assms have "\<bar>x\<bar> < 2 ^ 33" by simp
  then show "to_pyfloat x = Finite (round_binary64 x)" by (rule to_pyfloat_Finite)
  from assms have "\<bar>x\<bar> < 2 ^ 34" by simp
  from round_binary64_error [OF this] show "\<bar>round_binary64 x - x\<bar> \<le> 1 / 1048576" by simp
qed

lemma float_term_close:
  fixes n :: int and k :: rat
  assumes n: "\<bar>n\<bar> \<le> 33" and k: "\<bar>k\<bar> \<le> 2"
  shows "\<exists>fn p. float_of_int n = Inr fn \<and> float_mul (float_literal k) fn = Finite p
           \<and> \<bar>p - k * of_int n\<bar> \<le> 37 / 1048576"
proof -
  define fn where "fn = round_binary64 (of_int n)"
  define c where "c = float_literal k"
  define p where "p = round_binary64 (c * fn)"
  from n have "\<bar>of_int n :: rat\<bar> \<le> 33" by (metis of_int_abs of_int_le_iff of_int_numeral)
  then have n': "\<bar>of_int n :: rat\<bar> \<le> 100" by simp
  have fn: "float_of_int n = Inr fn" "\<bar>fn - of_int n\<bar> \<le> 1 / 1048576"
    using round_binary64_close [OF n'] by (simp_all add: float_of_int_def fn_def)
  from k have "\<bar>k\<bar> \<le> 100" by simp
  from round_binary64_close(2) [OF this] have c: "\<bar>c - k\<bar> \<le> 1 / 1048576"
    by (simp add: c_def float_literal_def)
  have prod: "\<bar>c * fn - k * of_int n\<bar> \<le> 36 * (1 / 1048576)"
    using c fn(2) k \<open>\<bar>of_int n :: rat\<bar> \<le> 33\<close> by (rule product_close) simp
  have "\<bar>k * of_int n\<bar> \<le> 2 * 33"
    unfolding abs_mult using k \<open>\<bar>of_int n :: rat\<bar> \<le> 33\<close> by (intro mult_mono) simp_all
  with prod have "\<bar>c * fn\<bar> \<le> 100" by linarith
  from round_binary64_close [OF this]
  have p: "float_mul c fn = Finite p" "\<bar>p - c * fn\<bar> \<le> 1 / 1048576"
    by (simp_all add: float_mul_def p_def)
  from p(2) prod have "\<bar>p - k * of_int n\<bar> \<le> 37 / 1048576" by linarith
  with fn(1) p(1) show ?thesis unfolding c_def by blast
qed

lemma get_hex_center_coords_truncates:
  assumes "\<bar>q c\<bar> \<le> 33" and "\<bar>r c\<bar> \<le> 33"
  shows "get_hex_center_coords c = Inr (hexCenterOffset_truncate c)"
proof -
  from float_term_close [OF assms(1), of "134 / 100"]
  obtain fq p1 where q: "float_of_int (q c) = Inr fq"
      "float_mul (float_literal (134 / 100)) fq = Finite p1"
      "\<bar>p1 - 134 / 100 * of_int (q c)\<bar> \<le> 37 / 1048576"
    by auto
  from float_term_close [OF assms(2), of "67 / 100"]
  obtain fr p2 where r: "float_of_int (r c) = Inr fr"
      "float_mul (float_literal (67 / 100)) fr = Finite p2"
      "\<bar>p2 - 67 / 100 * of_int (r c)\<bar> \<le> 37 / 1048576"
    by auto
  define v :: rat where "v = 134 / 100 * of_int (q c) + 67 / 100 * of_int (r c)"
  define t where "t = 2 * q c + r c"
  have v: "v = of_int (67 * t) / 100" by (simp add: v_def t_def)
  from assms have t: "\<bar>t\<bar> < 100" unfolding t_def by linarith
  from q(3) r(3) have sum: "\<bar>(p1 + p2) - v\<bar> \<le> 74 / 1048576" unfolding v_def by linarith
  have "\<bar>v\<bar> \<le> 67" unfolding v using t by (simp add: abs_le_iff) linarith
  with sum have "\<bar>p1 + p2\<bar> \<le> 100" by linarith
  from round_binary64_close [OF this]
  have s: "to_pyfloat (p1 + p2) = Finite (round_binary64 (p1 + p2))"
      "\<bar>round_binary64 (p1 + p2) - (p1 + p2)\<bar> \<le> 1 / 1048576"
    by simp_all
  from s(2) sum have "\<bar>round_binary64 (p1 + p2) - v\<bar> \<le> 1 / 200" by linarith
  then have eq: "truncate (round_binary64 (p1 + p2)) = truncate v"
    unfolding v using t by (intro truncate_close)
  have "get_hex_center_coords c = Inr (3 * r c, - truncate (round_binary64 (p1 + p2)))"
    by (simp only: get_hex_center_coords_def q(1,2) r(1,2) s(1) sum.case float_add.simps
        int_of_float.simps)
  also have "\<dots> = Inr (3 * r c, - truncate v)"
    by (simp only: eq)
  also have "\<dots> = Inr (hexCenterOffset_truncate c)"
    by (simp only: hexCenterOffset_truncate_def v_def)
  finally show ?thesis .
qed


lemma truncate_67_100: "truncate (67 / 100) = 0"
  by (simp add: truncate_def floor_eq_iff)


text \<open>
  Claim C1, amended. For a coordinate with \<open>\<bar>q\<bar> \<le> 33\<close> and \<open>\<bar>r\<bar> \<le> 33\<close> the projection
  returns, without raising, \<open>x = 3 * r\<close> and \<open>y = - trunc (1.34 * q + 0.67 * r)\<close>, where
  \<open>trunc\<close> drops the fraction (rounding towards zero) and the sum is the exact one: the
  float arithmetic of the code does not change the integer part in this range.
\<close>

theorem C1_projection_truncates:
  assumes "\<bar>q c\<bar> \<le> 33" and "\<bar>r c\<bar> \<le> 33"
  shows "get_hex_center_coords c = Inr (hexCenterOffset_truncate c)"
  using assms by (rule get_hex_center_coords_truncates)

theorem C1_projection_truncates_witness:
  "\<bar>q \<lparr>q = 0, r = 1\<rparr>\<bar> \<le> 33 \<and> \<bar>r \<lparr>q = 0, r = 1\<rparr>\<bar> \<le> 33
   \<and> get_hex_center_coords \<lparr>q = 0, r = 1\<rparr> = Inr (3, 0)"
  using C1_projection_truncates [of "\<lparr>q = 0, r = 1\<rparr>"]
  by (simp add: hexCenterOffset_truncate_def truncate_67_100)


text \<open>
  The claim as it is worded, with rounding to the nearest integer, fails at
  \<open>(q, r) = (0, 1)\<close>: \<^verbatim>\<open>int(0.67)\<close> is 0, so the code returns \<open>(3, 0)\<close>, and rounding
  \<open>0.67\<close> gives 1, so the claim says \<open>(3, - 1)\<close>.
\<close>

theorem C1_projection_does_not_round:
  "get_hex_center_coords \<lparr>q = 0, r = 1\<rparr> \<noteq> Inr (hexCenterOffset_round \<lparr>q = 0, r = 1\<rparr>)"
proof -
  have "get_hex_center_coords \<lparr>q = 0, r = 1\<rparr> = Inr (3, 0)"
    using get_hex_center_coords_truncates [of "\<lparr>q = 0, r = 1\<rparr>"]
    by (simp add: hexCenterOffset_truncate_def truncate_67_100)
  moreover have "hexCenterOffset_round \<lparr>q = 0, r = 1\<rparr> = (3, - 1)"
    by (simp add: hexCenterOffset_round_def round_def floor_eq_iff)
  ultimately show ?thesis by simp
qed

section \<open>Rendering a board twice\<close>

text \<open>
  Every action of the renderer is settled: sequencing keeps the property, and a colour
  lookup that returned finds its player in any larger map.
\<close>

lemma map_grows_refl: "map_grows self s s"
  by (simp add: map_grows_def)

lemma map_grows_trans: "map_grows self s t \<Longrightarrow> map_grows self t u \<Longrightarrow> map_grows self s u"
  unfolding map_grows_def by (rule map_le_trans)

lemma settledI:
  "(\<And>s v s'. m s = Inr (v, s') \<Longrightarrow> map_grows self s s') \<Longrightarrow>
   (\<And>s v s' t. m s = Inr (v, s') \<Longrightarrow> map_grows self s' t \<Longrightarrow> m t = Inr (v, t)) \<Longrightarrow>
   settled self m"
  unfolding settled_def by blast

lemma settled_grows: "settled self m \<Longrightarrow> m s = Inr (v, s') \<Longrightarrow> map_grows self s s'"
  unfolding settled_def by blast

lemma settled_again:
  "settled self m \<Longrightarrow> m s = Inr (v, s') \<Longrightarrow> map_grows self s' t \<Longrightarrow> m t = Inr (v, t)"
  unfolding settled_def by blast

lemma seq_Inr:
  "seq m f s = Inr (v, s') \<Longrightarrow> \<exists>w s1. m s = Inr (w, s1) \<and> f w s1 = Inr (v, s')"
  by (cases "m s") (auto simp: seq_def)

lemma settled_seq:
  assumes m: "settled self m" and f: "\<And>v. settled self (f v)"
  shows "settled self (seq m f)"
proof (rule settledI)
  fix s v s'
  assume "seq m f s = Inr (v, s')"
  then obtain w s1 where 1: "m s = Inr (w, s1)" and 2: "f w s1 = Inr (v, s')"
    by (blast dest: seq_Inr)
  from settled_grows [OF m 1] settled_grows [OF f 2]
  show "map_grows self s s'" by (rule map_grows_trans)
next
  fix s v s' t
  assume "seq m f s = Inr (v, s')" and t: "map_grows self s' t"
  then obtain w s1 where 1: "m s = Inr (w, s1)" and 2: "f w s1 = Inr (v, s')"
    by (blast dest: seq_Inr)
  from settled_grows [OF f 2] t have "map_grows self s1 t" by (rule map_grows_trans)
  from settled_again [OF m 1 this] settled_again [OF f 2 t]
  show "seq m f t = Inr (v, t)" by (simp add: seq_def)
qed

lemma settled_ret: "settled self (ret v)"
  by (rule settledI) (simp_all add: ret_def map_grows_refl)

lemma settled_lift: "settled self (lift x)"
  by (rule settledI; cases x) (simp_all add: lift_def map_grows_refl)

lemma get_player_color_Inr:
  assumes "get_player_color self p s = Inr (c, s')"
  shows "dict_objs s' (player_color_map self) p = Some c" and "map_grows self s s'"
proof -
  have "dict_objs s' (player_color_map self) p = Some c \<and> map_grows self s s'"
  proof (cases "dict_objs s (player_color_map self) p")
    case (Some d)
    with assms show ?thesis by (simp add: get_player_color_known map_grows_refl)
  next
    case None
    show ?thesis
    proof (cases "list_objs s (unused_player_colors self)")
      case Nil
      with None assms show ?thesis by (simp add: get_player_color_empty)
    next
      case (Cons d rest)
      from get_player_color_pop [OF None Cons] assms None show ?thesis
        by (auto simp: map_grows_def map_le_def)
    qed
  qed
  then show "dict_objs s' (player_color_map self) p = Some c" and "map_grows self s s'"
    by simp_all
qed

lemma settled_get_player_color: "settled self (get_player_color self p)"
proof (rule settledI)
  fix s c s'
  assume "get_player_color self p s = Inr (c, s')"
  then show "map_grows self s s'" by (rule get_player_color_Inr)
next
  fix s c s' t
  assume "get_player_color self p s = Inr (c, s')" and t: "map_grows self s' t"
  then have "dict_objs s' (player_color_map self) p = Some c" by (simp add: get_player_color_Inr)
  with t have "dict_objs t (player_color_map self) p = Some c"
    unfolding map_grows_def map_le_def by (metis domI)
  then show "get_player_color self p t = Inr (c, t)" by (rule get_player_color_known)
qed

lemma settled_concat_actions:
  "(\<And>m. m \<in> set ms \<Longrightarrow> settled self m) \<Longrightarrow> settled self (concat_actions ms)"
proof (induction ms)
  case Nil
  show ?case by (simp add: settled_ret)
next
  case (Cons m ms)
  show ?case
    unfolding concat_actions.simps
    by (intro settled_seq settled_ret Cons.IH Cons.prems) simp_all
qed

lemma settled_get_path: "settled self (get_path L self chars path board)"
  unfolding get_path_def
  by (cases "path_building path")
     (simp_all add: settled_seq settled_lift settled_ret settled_get_player_color)

lemma settled_get_intersection: "settled self (get_intersection L self char i)"
  unfolding get_intersection_def
  by (cases "intersection_building i")
     (simp_all add: settled_seq settled_lift settled_ret settled_get_player_color split_def)

lemma settled_get_hex: "settled self (get_hex L self board c)"
  unfolding get_hex_def Let_def
  by (intro settled_seq settled_lift settled_ret settled_concat_actions)
     (auto simp: settled_get_path settled_get_intersection settled_lift)

lemma settled_stamp_hexes: "settled self (stamp_hexes L self board cs buf)"
proof (induction cs arbitrary: buf)
  case Nil
  show ?case by (simp add: settled_ret)
next
  case (Cons c cs)
  show ?case
    unfolding stamp_hexes.simps split_def
    by (intro settled_seq settled_lift settled_get_hex Cons.IH)
qed

lemma settled_get_board_as_string: "settled self (get_board_as_string L offs self board)"
  unfolding get_board_as_string_def Let_def split_def
  by (intro settled_seq settled_lift settled_stamp_hexes settled_ret)

text \<open>
  Claim C8. When a call of \<^verbatim>\<open>get_board_as_string\<close> returns a string, a second call on
  the same renderer and the same board, from the store the first call left, returns the
  same string and changes nothing: the first call gave every player it met a colour, and
  the second finds each of them in the map.
\<close>

theorem C8_second_render_same_string:
  "get_board_as_string L offs self board s = Inr (out, s') \<Longrightarrow>
   get_board_as_string L offs self board s' = Inr (out, s')"
  by (rule settled_again [OF settled_get_board_as_string _ map_grows_refl])

theorem C8_second_render_same_string_witness:
  "\<exists>out s'.
     get_board_as_string example_colored corner_offsets (BoardRenderer_init None None None)
       example_hex_board class_store = Inr (out, s')
     \<and> get_board_as_string example_colored corner_offsets (BoardRenderer_init None None None)
         example_hex_board s' = Inr (out, s')"
proof -
  have "case get_board_as_string example_colored corner_offsets
               (BoardRenderer_init None None None) example_hex_board class_store of
          Inr x \<Rightarrow> True
        | Inl e \<Rightarrow> False"
    by code_simp
  then obtain out s' where first:
    "get_board_as_string example_colored corner_offsets (BoardRenderer_init None None None)
       example_hex_board class_store = Inr (out, s')"
    by (cases "get_board_as_string example_colored corner_offsets
                 (BoardRenderer_init None None None) example_hex_board class_store") auto
  from first C8_second_render_same_string [OF first] show ?thesis by blast
qed

end
